theory Spec2Isabelle
  imports
    Main
    "HOL-Library.Char_ord"
    "HOL-Library.List_Lexorder"
    "HOL-Library.AList"
begin

section \<open>JavaScript values and their string conversion\<close>

text \<open>
  The identifying parameters of a backend are a \<^verbatim>\<open>Record<string, any>\<close>. The values that
  matter for the cache key are the ones whose string conversion the template literal
  \<^verbatim>\<open>`${Object.entries(params).sort()}`\<close> computes. Numbers and nested objects are left out of
  the value type (floating point is not modelled); every other definition is independent of
  that choice.
\<close>

datatype js_value =
    JUndefined
  | JNull
  | JBool bool
  | JString string
  | JArray "js_value list"

type_synonym js_object = "(string \<times> js_value) list"

text \<open>\<^verbatim>\<open>Array.prototype.join\<close> with the default separator.\<close>

fun join_comma :: "string list \<Rightarrow> string" where
  "join_comma [] = []"
| "join_comma [s] = s"
| "join_comma (s # t # ss) = s @ '','' @ join_comma (t # ss)"

text \<open>
  \<^verbatim>\<open>String(v)\<close>. An array converts by joining its elements with a comma, where an element
  that is \<^verbatim>\<open>undefined\<close> or \<^verbatim>\<open>null\<close> contributes the empty string.
\<close>

fun toString :: "js_value \<Rightarrow> string" where
  "toString JUndefined = ''undefined''"
| "toString JNull = ''null''"
| "toString (JBool b) = (if b then ''true'' else ''false'')"
| "toString (JString s) = s"
| "toString (JArray vs) =
     join_comma (map (\<lambda>v. if v = JUndefined \<or> v = JNull then [] else toString v) vs)"

text \<open>
  An element of \<^verbatim>\<open>Object.entries(params)\<close> is the two-element array \<^verbatim>\<open>[key, value]\<close>.
\<close>

definition entry :: "string \<times> js_value \<Rightarrow> js_value" where
  "entry kv = JArray [JString (fst kv), snd kv]"

text \<open>
  \<^verbatim>\<open>Array.prototype.sort()\<close> without a comparator orders the elements by their string
  conversions, compared code unit by code unit (a proper prefix comes first), and is stable.
  Characters are bytes here, so the order agrees with JavaScript's on ASCII text.
\<close>

definition js_sort :: "js_value list \<Rightarrow> js_value list" where
  "js_sort vs = sort_key toString vs"

section \<open>Results, errors, events\<close>

type_synonym run_id = string
type_synonym stop = "string list option"

datatype generation = Generation (gen_text: string)

text \<open>
  \<^verbatim>\<open>LLMResult\<close>: the per-prompt candidate lists, the metadata map \<^verbatim>\<open>llmOutput\<close> and the
  run-correlation field \<^verbatim>\<open>__run\<close>. The element type is a parameter because the array that
  \<^verbatim>\<open>generate\<close> merges holds \<^verbatim>\<open>Generation[] | null\<close>: a slot stays \<^verbatim>\<open>null\<close> when the lookup missed
  and the backend returned nothing for it.
\<close>

record 'g llm_result =
  generations :: "'g list"
  llmOutput :: "js_object option"
  run :: "run_id option"

datatype js_error = Error string | TypeError string

text \<open>
  Everything the orchestrator does to its environment, in the order in which it does it.
  \<^verbatim>\<open>CacheUpdate\<close> carries an optional prompt because the code can pass \<^verbatim>\<open>undefined\<close> there.
\<close>

datatype event =
    is_CacheLookup: CacheLookup string string
  | is_CacheUpdate: CacheUpdate "string option" string "generation list"
  | is_LLMStart: LLMStart string "string list" run_id
  | is_BackendGenerate: BackendGenerate "string list" stop "run_id option"
  | is_LLMError: LLMError js_error run_id
  | is_LLMEnd: LLMEnd "generation list llm_result" run_id

text \<open>
  Modelled from the spec: the Cache Port (\<^verbatim>\<open>BaseCache\<close> is declared in schema/index.js, which
  is not among the sources). Section 4.3 gives \<^verbatim>\<open>lookup(prompt, paramsKey)\<close> returning a
  generation list or a miss, and \<^verbatim>\<open>update(prompt, paramsKey, generation)\<close>. The port works on
  a store of its own, of type \<^typ>\<open>'c\<close>; the prompt of an update is optional because the code can
  pass \<^verbatim>\<open>undefined\<close>. \<open>completion i\<close> is the time at which the promise of the lookup issued
  for index \<open>i\<close> settles (section 5: no ordering guarantee among the lookups).
\<close>

record 'c cache_port =
  lookup :: "string \<Rightarrow> string \<Rightarrow> 'c \<Rightarrow> generation list option"
  update :: "string option \<Rightarrow> string \<Rightarrow> generation list \<Rightarrow> 'c \<Rightarrow> 'c"
  completion :: "nat \<Rightarrow> nat"

text \<open>
  The world an orchestrator call runs in: the store behind the cache port, the state of the
  backend, and the trace of events so far.
\<close>

record ('c, 'b) world =
  cache_st :: 'c
  backend_st :: 'b
  trace :: "event list"

definition emit :: "event list \<Rightarrow> ('c, 'b) world \<Rightarrow> ('c, 'b) world" where
  "emit evs w = w\<lparr>trace := trace w @ evs\<rparr>"

text \<open>
  Modelled from the spec: the Notification Coordinator (\<^verbatim>\<open>CallbackManager\<close> and
  \<^verbatim>\<open>CallbackManagerForLLMRun\<close> are in callbacks/manager.js, which is not among the sources).
  By sections 4.1.1 and 4.2 emitting "start" yields a run handle with a fresh correlation id,
  error and end are emitted through that handle, and an emission is a notification to the
  sinks that returns without failing. The trace records each of these calls. \<open>freshId\<close> is
  the id that the coordinator draws for the run.
\<close>

datatype callback_manager = CallbackManager (freshId: run_id)
datatype run_manager = RunManager (runId: run_id)

type_synonym callbacks = "string list"

definition handleLLMStart ::
  "callback_manager \<Rightarrow> string \<Rightarrow> string list \<Rightarrow> ('c, 'b) world \<Rightarrow> run_manager \<times> ('c, 'b) world"
where
  "handleLLMStart cm name prompts w =
     (RunManager (freshId cm), emit [LLMStart name prompts (freshId cm)] w)"

definition handleLLMError :: "run_manager \<Rightarrow> js_error \<Rightarrow> ('c, 'b) world \<Rightarrow> ('c, 'b) world" where
  "handleLLMError rm err w = emit [LLMError err (runId rm)] w"

definition handleLLMEnd ::
  "run_manager \<Rightarrow> generation list llm_result \<Rightarrow> ('c, 'b) world \<Rightarrow> ('c, 'b) world"
where
  "handleLLMEnd rm output w = emit [LLMEnd output (runId rm)] w"

section \<open>BaseLLM\<close>

text \<open>
  An instance of \<^verbatim>\<open>BaseLLM\<close>: the abstract members \<^verbatim>\<open>_llmType\<close> and \<^verbatim>\<open>_generate\<close>, the
  overridable \<^verbatim>\<open>_identifyingParams\<close>, the \<^verbatim>\<open>cache\<close> field, and \<open>configure\<close>, which stands for
  \<^verbatim>\<open>CallbackManager.configure(callbacks, this.callbacks, {verbose})\<close> and yields no coordinator
  when no sink is active. A leading underscore of the source is written \<open>u_\<close>. The backend
  works on a state of its own, of type \<^typ>\<open>'b\<close>, and either throws or returns a result.
\<close>

record ('c, 'b) llm =
  u_llmType :: string
  u_identifyingParams :: js_object
  cache :: "'c cache_port option"
  configure :: "callbacks \<Rightarrow> callback_manager option"
  u_generate ::
    "string list \<Rightarrow> stop \<Rightarrow> run_manager option \<Rightarrow> 'b \<Rightarrow> (js_error + generation list llm_result) \<times> 'b"

definition u_modelType :: string where
  "u_modelType = ''base_llm''"

text \<open>
  \<^verbatim>\<open>{ ...this._identifyingParams(), _type: this._llmType(), _model: this._modelType() }\<close>:
  a later property of the same name replaces the value and keeps the position.
\<close>

definition serialize :: "('c, 'b) llm \<Rightarrow> js_object" where
  "serialize m =
     AList.update ''_model'' (JString u_modelType)
       (AList.update ''_type'' (JString (u_llmType m)) (u_identifyingParams m))"

definition stop_value :: "stop \<Rightarrow> js_value" where
  "stop_value stop = (case stop of None \<Rightarrow> JUndefined | Some ss \<Rightarrow> JArray (map JString ss))"

text \<open>
  Lines 114 to 117: \<^verbatim>\<open>params = this.serialize(); params.stop = stop;\<close> and then
  \<^verbatim>\<open>llmStringKey = `${Object.entries(params).sort()}`\<close>.
\<close>

definition llmStringKey :: "('c, 'b) llm \<Rightarrow> stop \<Rightarrow> string" where
  "llmStringKey m stop =
     (let params = AList.update ''stop'' (stop_value stop) (serialize m)
      in toString (JArray (js_sort (map entry params))))"

text \<open>
  \<^verbatim>\<open>_generateUncached\<close> (lines 70 to 95). The call of \<^verbatim>\<open>_generate\<close> is recorded in the trace
  with its arguments before the backend runs; what the backend itself does with the run
  handle is its own business and is not traced. \<^verbatim>\<open>handleLLMEnd\<close> sees the output before
  \<^verbatim>\<open>__run\<close> is set on it.
\<close>

definition u_generateUncached ::
  "('c, 'b) llm \<Rightarrow> string list \<Rightarrow> stop \<Rightarrow> callbacks \<Rightarrow> ('c, 'b) world
     \<Rightarrow> (js_error + generation list llm_result) \<times> ('c, 'b) world"
where
  "u_generateUncached m prompts stop cbs w =
     (let callbackManager = configure m cbs;
          (runManager, w1) =
            (case callbackManager of
               None \<Rightarrow> (None, w)
             | Some cm \<Rightarrow>
                 (case handleLLMStart cm (u_llmType m) prompts w of (rm, w') \<Rightarrow> (Some rm, w')));
          w2 = emit [BackendGenerate prompts stop (map_option runId runManager)] w1;
          (outcome, b) = u_generate m prompts stop runManager (backend_st w2);
          w3 = w2\<lparr>backend_st := b\<rparr>
      in case outcome of
           Inl err \<Rightarrow>
             (Inl err, case runManager of None \<Rightarrow> w3 | Some rm \<Rightarrow> handleLLMError rm err w3)
         | Inr output \<Rightarrow>
             (Inr (output\<lparr>run := map_option runId runManager\<rparr>),
              case runManager of None \<Rightarrow> w3 | Some rm \<Rightarrow> handleLLMEnd rm output w3))"

text \<open>
  The argument \<^verbatim>\<open>prompts\<close> is typed \<^verbatim>\<open>string[]\<close>, and line 105 still tests it at run time:
  \<open>NotArray\<close> is any value for which \<^verbatim>\<open>Array.isArray\<close> is false.
\<close>

datatype prompts_arg = Array "string list" | NotArray

text \<open>
  Lines 118 to 127. Every lookup is issued while \<^verbatim>\<open>prompts.map\<close> runs, in index order; the
  rest of each callback, which pushes the index of a miss, runs when the promise of its lookup
  settles. So \<^verbatim>\<open>missingPromptIndices\<close> lists the misses in the order of settling, and lookups
  that settle together keep their index order. A cached value is an array, which is truthy
  even when empty: only \<^verbatim>\<open>null\<close> is a miss.
\<close>

definition missingPromptIndices :: "'c cache_port \<Rightarrow> generation list option list \<Rightarrow> nat list" where
  "missingPromptIndices cp gens =
     filter (\<lambda>index. gens ! index = None) (sort_key (completion cp) [0..<length gens])"

text \<open>
  Lines 137 to 141, one callback per returned generation, in order. When the backend returns
  more generations than it was given prompts, \<^verbatim>\<open>missingPromptIndices[index]\<close> is
  \<^verbatim>\<open>undefined\<close>: the assignment \<^verbatim>\<open>generations[undefined] = generation\<close> changes no slot of the
  array, and the cache is updated under the prompt \<^verbatim>\<open>prompts[undefined]\<close>, that is
  \<^verbatim>\<open>undefined\<close>. An index taken from \<^verbatim>\<open>missingPromptIndices\<close> is an index of \<^verbatim>\<open>prompts\<close>
  and of \<^verbatim>\<open>generations\<close>, so those reads and writes are in range.
\<close>

fun splice_results ::
  "'c cache_port \<Rightarrow> string list \<Rightarrow> string \<Rightarrow> nat list \<Rightarrow> nat \<Rightarrow> generation list list
     \<Rightarrow> generation list option list \<times> ('c, 'b) world
     \<Rightarrow> generation list option list \<times> ('c, 'b) world"
where
  "splice_results cp prompts key missing index [] acc = acc"
| "splice_results cp prompts key missing index (generation # rest) (gens, w) =
     splice_results cp prompts key missing (Suc index) rest
       (if index < length missing
        then (let promptIndex = missing ! index
              in (gens[promptIndex := Some generation],
                  emit [CacheUpdate (Some (prompts ! promptIndex)) key generation]
                    (w\<lparr>cache_st := update cp (Some (prompts ! promptIndex)) key generation (cache_st w)\<rparr>)))
        else (gens,
              emit [CacheUpdate None key generation]
                (w\<lparr>cache_st := update cp None key generation (cache_st w)\<rparr>)))"

text \<open>
  \<^verbatim>\<open>generate\<close> (lines 100 to 147). Without a cache the result of the uncached path is
  returned as it is; \<open>lift_result\<close> only embeds its candidate lists into the slot type.
\<close>

definition lift_result :: "generation list llm_result \<Rightarrow> generation list option llm_result" where
  "lift_result r = \<lparr>generations = map Some (generations r), llmOutput = llmOutput r, run = run r\<rparr>"

definition generate ::
  "('c, 'b) llm \<Rightarrow> prompts_arg \<Rightarrow> stop \<Rightarrow> callbacks \<Rightarrow> ('c, 'b) world
     \<Rightarrow> (js_error + generation list option llm_result) \<times> ('c, 'b) world"
where
  "generate m arg stop cbs w =
     (case arg of
        NotArray \<Rightarrow> (Inl (Error ''Argument 'prompts' is expected to be a string[]''), w)
      | Array prompts \<Rightarrow>
          (case cache m of
             None \<Rightarrow>
               (case u_generateUncached m prompts stop cbs w of
                  (Inl err, w') \<Rightarrow> (Inl err, w')
                | (Inr output, w') \<Rightarrow> (Inr (lift_result output), w'))
           | Some cp \<Rightarrow>
               (let key = llmStringKey m stop;
                    w1 = emit (map (\<lambda>prompt. CacheLookup prompt key) prompts) w;
                    gens = map (\<lambda>prompt. lookup cp prompt key (cache_st w)) prompts;
                    missing = missingPromptIndices cp gens
                in if length missing > 0
                   then (case u_generateUncached m (map (\<lambda>i. prompts ! i) missing) stop cbs w1 of
                           (Inl err, w2) \<Rightarrow> (Inl err, w2)
                         | (Inr results, w2) \<Rightarrow>
                             (case splice_results cp prompts key missing 0 (generations results) (gens, w2) of
                                (gens', w3) \<Rightarrow>
                                  (Inr \<lparr>generations = gens',
                                        llmOutput = Some (case llmOutput results of
                                                            None \<Rightarrow> [] | Some out \<Rightarrow> out),
                                        run = None\<rparr>, w3)))
                   else (Inr \<lparr>generations = gens, llmOutput = Some [], run = None\<rparr>, w1))))"

section \<open>Deserialization\<close>

text \<open>
  \<^verbatim>\<open>SerializedLLM\<close>: the two discriminators and the remaining properties. \<^verbatim>\<open>_model\<close> is
  optional here because line 194 tests it for truthiness before comparing it: an absent
  discriminator and the empty string are both falsy.
\<close>

record serializedLLM =
  u_model :: "string option"
  u_type :: string
  rest :: js_object

text \<open>
  What the property access \<^verbatim>\<open>{ openai: ... }[_type]\<close> of lines 197 to 199 can yield. The table
  is an object literal, so besides its own property \<^verbatim>\<open>openai\<close> the access finds the properties
  that every object inherits from \<^verbatim>\<open>Object.prototype\<close>: \<^verbatim>\<open>constructor\<close> is the function
  \<^verbatim>\<open>Object\<close>, the others are methods (or, for \<^verbatim>\<open>__proto__\<close>, an object) that \<^verbatim>\<open>new\<close> rejects.
\<close>

datatype cls = OpenAI | ObjectFunction | NotAConstructor

definition inherited_names :: "string list" where
  "inherited_names =
     [''__proto__'', ''hasOwnProperty'', ''isPrototypeOf'', ''propertyIsEnumerable'',
      ''toLocaleString'', ''toString'', ''valueOf'', ''__defineGetter__'',
      ''__defineSetter__'', ''__lookupGetter__'', ''__lookupSetter__'']"

definition Cls :: "string \<Rightarrow> cls option" where
  "Cls t =
     (if t = ''openai'' then Some OpenAI
      else if t = ''constructor'' then Some ObjectFunction
      else if t \<in> set inherited_names then Some NotAConstructor
      else None)"

text \<open>
  The value of \<^verbatim>\<open>new Cls(rest)\<close>: a backend instance of the registered class (the class
  itself is in openai.js, not among the sources, and is kept abstract), or, for
  \<^verbatim>\<open>new Object(rest)\<close>, the plain object \<^verbatim>\<open>rest\<close>.
\<close>

datatype loaded = Instance cls js_object | PlainObject js_object

definition new_Cls :: "cls \<Rightarrow> js_object \<Rightarrow> js_error + loaded" where
  "new_Cls c args =
     (case c of
        OpenAI \<Rightarrow> Inr (Instance OpenAI args)
      | ObjectFunction \<Rightarrow> Inr (PlainObject args)
      | NotAConstructor \<Rightarrow> Inl (TypeError ''Cls is not a constructor''))"

text \<open>\<^verbatim>\<open>deserialize\<close> (lines 192 to 204); the second message has two spaces, as in the source.\<close>

definition deserialize :: "serializedLLM \<Rightarrow> js_error + loaded" where
  "deserialize data =
     (let mdl = u_model data
      in if mdl \<noteq> None \<and> mdl \<noteq> Some [] \<and> mdl \<noteq> Some ''base_llm''
         then Inl (Error (''Cannot load LLM with model '' @ the mdl))
         else (case Cls (u_type data) of
                 None \<Rightarrow> Inl (Error (''Cannot load  LLM with type '' @ u_type data))
               | Some c \<Rightarrow> new_Cls c (rest data)))"

section \<open>The single-prompt adapter\<close>

text \<open>
  \<^verbatim>\<open>LLM._generate\<close> (lines 224 to 235): the loop visits \<^verbatim>\<open>prompts[0]\<close>, \<^verbatim>\<open>prompts[1]\<close>, and so
  on, awaits \<^verbatim>\<open>_call\<close> on each and pushes the one-candidate list; a call that throws ends the
  loop. The accumulator is the array \<^verbatim>\<open>generations\<close>.
\<close>

fun LLM_loop ::
  "(string \<Rightarrow> stop \<Rightarrow> run_manager option \<Rightarrow> 'b \<Rightarrow> (js_error + string) \<times> 'b)
     \<Rightarrow> string list \<Rightarrow> stop \<Rightarrow> run_manager option \<Rightarrow> generation list list \<Rightarrow> 'b
     \<Rightarrow> (js_error + generation list llm_result) \<times> 'b"
where
  "LLM_loop u_call [] stop rm gens b =
     (Inr \<lparr>generations = gens, llmOutput = None, run = None\<rparr>, b)"
| "LLM_loop u_call (prompt # prompts) stop rm gens b =
     (case u_call prompt stop rm b of
        (Inl err, b') \<Rightarrow> (Inl err, b')
      | (Inr txt, b') \<Rightarrow> LLM_loop u_call prompts stop rm (gens @ [[Generation txt]]) b')"

definition LLM_u_generate ::
  "(string \<Rightarrow> stop \<Rightarrow> run_manager option \<Rightarrow> 'b \<Rightarrow> (js_error + string) \<times> 'b)
     \<Rightarrow> string list \<Rightarrow> stop \<Rightarrow> run_manager option \<Rightarrow> 'b
     \<Rightarrow> (js_error + generation list llm_result) \<times> 'b"
where
  "LLM_u_generate u_call prompts stop rm b = LLM_loop u_call prompts stop rm [] b"

text \<open>
  The adapter as section 6 of the specification words it: \<^verbatim>\<open>call\<close> is invoked on the prompts
  in turn, each call starting where the previous one left the backend, and the strings are
  collected in input order.
\<close>

fun call_in_turn ::
  "(string \<Rightarrow> stop \<Rightarrow> run_manager option \<Rightarrow> 'b \<Rightarrow> (js_error + string) \<times> 'b)
     \<Rightarrow> string list \<Rightarrow> stop \<Rightarrow> run_manager option \<Rightarrow> 'b \<Rightarrow> (js_error + string list) \<times> 'b"
where
  "call_in_turn u_call [] stop rm b = (Inr [], b)"
| "call_in_turn u_call (prompt # prompts) stop rm b =
     (case u_call prompt stop rm b of
        (Inl err, b') \<Rightarrow> (Inl err, b')
      | (Inr txt, b') \<Rightarrow>
          (case call_in_turn u_call prompts stop rm b' of
             (Inl err, b'') \<Rightarrow> (Inl err, b'')
           | (Inr txts, b'') \<Rightarrow> (Inr (txt # txts), b'')))"

section \<open>Concrete instances\<close>

text \<open>
  A cache port over an association list keyed by the pair of prompt and parameter string,
  with the settling times of its lookups as a parameter, and two backends over a counter of
  their invocations: one answers every prompt with the prompt followed by an exclamation
  mark, the other throws. They serve as concrete inputs.
\<close>

type_synonym store = "((string option \<times> string) \<times> generation list) list"

definition table_cache :: "(nat \<Rightarrow> nat) \<Rightarrow> store cache_port" where
  "table_cache settle =
     \<lparr>lookup = (\<lambda>prompt key st. map_of st (Some prompt, key)),
      update = (\<lambda>prompt key val st. AList.update (prompt, key) val st),
      completion = settle\<rparr>"

definition echo ::
  "string list \<Rightarrow> stop \<Rightarrow> run_manager option \<Rightarrow> nat \<Rightarrow> (js_error + generation list llm_result) \<times> nat"
where
  "echo prompts stop rm n =
     (Inr \<lparr>generations = map (\<lambda>prompt. [Generation (prompt @ ''!'')]) prompts,
           llmOutput = None, run = None\<rparr>, Suc n)"

definition broken ::
  "string list \<Rightarrow> stop \<Rightarrow> run_manager option \<Rightarrow> nat \<Rightarrow> (js_error + generation list llm_result) \<times> nat"
where
  "broken prompts stop rm n = (Inl (Error ''backend down''), Suc n)"

definition sample_llm ::
  "store cache_port option
     \<Rightarrow> (string list \<Rightarrow> stop \<Rightarrow> run_manager option \<Rightarrow> nat \<Rightarrow> (js_error + generation list llm_result) \<times> nat)
     \<Rightarrow> (store, nat) llm"
where
  "sample_llm cp backend =
     \<lparr>u_llmType = ''echo'', u_identifyingParams = [], cache = cp,
      configure = (\<lambda>cbs. if cbs = [] then None else Some (CallbackManager ''run-1'')),
      u_generate = backend\<rparr>"

definition initial :: "store \<Rightarrow> (store, nat) world" where
  "initial st = \<lparr>cache_st = st, backend_st = 0, trace = []\<rparr>"

definition echo_call ::
  "string \<Rightarrow> stop \<Rightarrow> run_manager option \<Rightarrow> nat \<Rightarrow> (js_error + string) \<times> nat"
where
  "echo_call prompt stop rm n = (Inr (prompt @ ''!''), Suc n)"

text \<open>
  A store that holds one entry, for the prompt \<^verbatim>\<open>p2\<close> under the parameter string of the sample
  backend without stop sequences; the sample backend behind a cache whose lookups all settle
  together; and what the uncached path returns, and the world it leaves, when that backend is
  asked for \<^verbatim>\<open>p1\<close> and \<^verbatim>\<open>p3\<close> with one sink registered.
\<close>

definition one_cached :: store where
  "one_cached = [((Some ''p2'', ''_model,base_llm,_type,echo,stop,''), [Generation ''cached''])]"

definition demo_llm :: "(store, nat) llm" where
  "demo_llm = sample_llm (Some (table_cache (\<lambda>i. 0))) echo"

definition demo_results :: "generation list llm_result" where
  "demo_results = \<lparr>generations = [[Generation ''p1!''], [Generation ''p3!'']], llmOutput = None,
                    run = Some ''run-1''\<rparr>"

definition demo_after_backend :: "(store, nat) world" where
  "demo_after_backend =
     \<lparr>cache_st = one_cached, backend_st = 1,
      trace = [CacheLookup ''p1'' ''_model,base_llm,_type,echo,stop,'',
               CacheLookup ''p2'' ''_model,base_llm,_type,echo,stop,'',
               CacheLookup ''p3'' ''_model,base_llm,_type,echo,stop,'',
               LLMStart ''echo'' [''p1'', ''p3''] ''run-1'',
               BackendGenerate [''p1'', ''p3''] None (Some ''run-1''),
               LLMEnd \<lparr>generations = [[Generation ''p1!''], [Generation ''p3!'']], llmOutput = None,
                        run = None\<rparr> ''run-1'']\<rparr>"

section \<open>Auxiliary facts\<close>

text \<open>The list of missing indices: its elements, and its order when lookups settle in index order.\<close>

lemma missing_set: "set (missingPromptIndices cp gens) = {i. i < length gens \<and> gens ! i = None}"
  by (auto simp: missingPromptIndices_def)

lemma missing_distinct: "distinct (missingPromptIndices cp gens)"
  by (simp add: missingPromptIndices_def)

lemma missing_in_order:
  "sorted (map (completion cp) [0..<length gens]) \<Longrightarrow>
   missingPromptIndices cp gens = filter (\<lambda>i. gens ! i = None) [0..<length gens]"
  by (simp add: missingPromptIndices_def sort_key_id_if_sorted)

lemma uncached_result:
  "u_generateUncached m ps stop cbs w =
    (let rm = map_option (\<lambda>cm. RunManager (freshId cm)) (configure m cbs);
         rid = map_option freshId (configure m cbs);
         start = (case configure m cbs of
                    None \<Rightarrow> []
                  | Some cm \<Rightarrow> [LLMStart (u_llmType m) ps (freshId cm)]);
         call = [BackendGenerate ps stop rid]
     in case u_generate m ps stop rm (backend_st w) of
          (Inl err, b) \<Rightarrow>
            (Inl err,
             w\<lparr>backend_st := b,
               trace := trace w @ start @ call @
                 (case rid of None \<Rightarrow> [] | Some r \<Rightarrow> [LLMError err r])\<rparr>)
        | (Inr out, b) \<Rightarrow>
            (Inr (out\<lparr>run := rid\<rparr>),
             w\<lparr>backend_st := b,
               trace := trace w @ start @ call @
                 (case rid of None \<Rightarrow> [] | Some r \<Rightarrow> [LLMEnd out r])\<rparr>))"
  by (simp add: u_generateUncached_def handleLLMStart_def handleLLMError_def handleLLMEnd_def
      emit_def Let_def split: option.splits prod.splits sum.splits)

text \<open>The splice loop: lengths, trace, the slots it leaves alone and the slots it fills.\<close>

lemma splice_length:
  "splice_results cp ps key missing j rs (gens, w) = (gens', w') \<Longrightarrow> length gens' = length gens"
  by (induction rs arbitrary: j gens w) (auto simp: Let_def split: if_splits)

lemma splice_trace:
  "splice_results cp ps key missing j rs (gens, w) = (gens', w') \<Longrightarrow>
   trace w' = trace w @
     map (\<lambda>(k, g). CacheUpdate (if k < length missing then Some (ps ! (missing ! k)) else None) key g)
       (enumerate j rs)"
  by (induction rs arbitrary: j gens w) (auto simp: Let_def emit_def split: if_splits)

lemma enumerate_updates:
  assumes "length rs \<le> length missing"
  shows "map (\<lambda>(k, g). CacheUpdate (if k < length missing then Some (ps ! (missing ! k)) else None) key g)
           (enumerate 0 rs) =
         map (\<lambda>(i, g). CacheUpdate (Some (ps ! i)) key g) (zip missing rs)"
  using assms by (auto simp: list_eq_iff_nth_eq nth_enumerate_eq)

lemma splice_untouched:
  "splice_results cp ps key missing j rs (gens, w) = (gens', w') \<Longrightarrow>
   i \<notin> set (drop j missing) \<Longrightarrow> gens' ! i = gens ! i"
proof (induction rs arbitrary: j gens w)
  case Nil
  then show ?case by simp
next
  case (Cons g rs)
  show ?case
  proof (cases "j < length missing")
    case True
    then have d: "drop j missing = missing ! j # drop (Suc j) missing"
      by (simp add: Cons_nth_drop_Suc)
    with Cons.prems have ne: "i \<noteq> missing ! j" and rest: "i \<notin> set (drop (Suc j) missing)"
      by auto
    from Cons.prems(1) True
    have "splice_results cp ps key missing (Suc j) rs
            (gens[missing ! j := Some g],
             emit [CacheUpdate (Some (ps ! (missing ! j))) key g]
               (w\<lparr>cache_st := update cp (Some (ps ! (missing ! j))) key g (cache_st w)\<rparr>)) = (gens', w')"
      by (simp add: Let_def)
    from Cons.IH [OF this rest] ne show ?thesis by simp
  next
    case False
    with Cons.prems(1)
    have "splice_results cp ps key missing (Suc j) rs
            (gens, emit [CacheUpdate None key g] (w\<lparr>cache_st := update cp None key g (cache_st w)\<rparr>)) = (gens', w')"
      by simp
    moreover from False have "i \<notin> set (drop (Suc j) missing)" by simp
    ultimately show ?thesis using Cons.IH by blast
  qed
qed

lemma splice_filled:
  "splice_results cp ps key missing j rs (gens, w) = (gens', w') \<Longrightarrow>
   distinct missing \<Longrightarrow> \<forall>i \<in> set missing. i < length gens \<Longrightarrow>
   j \<le> k \<Longrightarrow> k < j + length rs \<Longrightarrow> k < length missing \<Longrightarrow>
   gens' ! (missing ! k) = Some (rs ! (k - j))"
proof (induction rs arbitrary: j gens w)
  case Nil
  then show ?case by simp
next
  case (Cons g rs)
  from Cons.prems have jl: "j < length missing" by simp
  let ?gens1 = "gens[missing ! j := Some g]"
  let ?w1 = "emit [CacheUpdate (Some (ps ! (missing ! j))) key g]
               (w\<lparr>cache_st := update cp (Some (ps ! (missing ! j))) key g (cache_st w)\<rparr>)"
  from Cons.prems(1) jl
  have step: "splice_results cp ps key missing (Suc j) rs (?gens1, ?w1) = (gens', w')"
    by (simp add: Let_def)
  show ?case
  proof (cases "k = j")
    case True
    have "missing ! j \<notin> set (drop (Suc j) missing)"
    proof
      assume "missing ! j \<in> set (drop (Suc j) missing)"
      then obtain t where t: "t < length (drop (Suc j) missing)" "drop (Suc j) missing ! t = missing ! j"
        by (auto simp: in_set_conv_nth)
      then have "missing ! (Suc j + t) = missing ! j" "Suc j + t < length missing"
        by auto
      with \<open>distinct missing\<close> jl have "Suc j + t = j"
        by (simp add: nth_eq_iff_index_eq)
      then show False by simp
    qed
    from splice_untouched [OF step this]
    have "gens' ! (missing ! j) = ?gens1 ! (missing ! j)" .
    moreover from Cons.prems(3) jl have "missing ! j < length gens" by simp
    ultimately show ?thesis using True by simp
  next
    case False
    with Cons.prems have k: "Suc j \<le> k" "k < Suc j + length rs" by simp_all
    from Cons.prems(3) have "\<forall>i \<in> set missing. i < length ?gens1" by simp
    from Cons.IH [OF step Cons.prems(2) this k Cons.prems(6)]
    have "gens' ! (missing ! k) = Some (rs ! (k - Suc j))" .
    moreover from k have "(g # rs) ! (k - j) = rs ! (k - Suc j)"
      by (simp add: nth_Cons')
    ultimately show ?thesis by simp
  qed
qed

lemma splice_beyond:
  "splice_results cp ps key missing j rs (gens, w) = (gens', w') \<Longrightarrow>
   i \<notin> set (take (length rs) (drop j missing)) \<Longrightarrow> gens' ! i = gens ! i"
proof (induction rs arbitrary: j gens w)
  case Nil
  then show ?case by simp
next
  case (Cons g rs)
  show ?case
  proof (cases "j < length missing")
    case True
    then have d: "drop j missing = missing ! j # drop (Suc j) missing"
      by (simp add: Cons_nth_drop_Suc)
    with Cons.prems(2) have ne: "i \<noteq> missing ! j"
      and rest: "i \<notin> set (take (length rs) (drop (Suc j) missing))"
      by auto
    from Cons.prems(1) True
    have "splice_results cp ps key missing (Suc j) rs
            (gens[missing ! j := Some g],
             emit [CacheUpdate (Some (ps ! (missing ! j))) key g]
               (w\<lparr>cache_st := update cp (Some (ps ! (missing ! j))) key g (cache_st w)\<rparr>)) = (gens', w')"
      by (simp add: Let_def)
    from Cons.IH [OF this rest] ne show ?thesis by simp
  next
    case False
    with Cons.prems(1)
    have "splice_results cp ps key missing (Suc j) rs
            (gens, emit [CacheUpdate None key g] (w\<lparr>cache_st := update cp None key g (cache_st w)\<rparr>)) = (gens', w')"
      by simp
    moreover from False have "i \<notin> set (take (length rs) (drop (Suc j) missing))" by simp
    ultimately show ?thesis using Cons.IH by blast
  qed
qed

text \<open>The uncached path: what it adds to the trace.\<close>

lemma uncached_trace:
  assumes "u_generateUncached m ps stop cbs w = (outcome, w')"
  shows "\<exists>evs. trace w' = trace w @ evs \<and>
           filter is_BackendGenerate evs = [BackendGenerate ps stop (map_option freshId (configure m cbs))] \<and>
           filter is_CacheUpdate evs = []"
  using assms
  by (auto simp: uncached_result Let_def split: prod.splits sum.splits option.splits)

text \<open>The three ways through the cached branch of \<^verbatim>\<open>generate\<close>.\<close>

lemma generate_with_misses:
  assumes "cache m = Some cp"
    and "missingPromptIndices cp (map (\<lambda>prompt. lookup cp prompt (llmStringKey m stop) (cache_st w)) prompts) = missing"
    and "missing \<noteq> []"
    and "u_generateUncached m (map (\<lambda>i. prompts ! i) missing) stop cbs
           (w\<lparr>trace := trace w @ map (\<lambda>prompt. CacheLookup prompt (llmStringKey m stop)) prompts\<rparr>) = (Inr results, w2)"
  shows "generate m (Array prompts) stop cbs w =
           (Inr \<lparr>generations =
                   fst (splice_results cp prompts (llmStringKey m stop) missing 0 (generations results)
                          (map (\<lambda>prompt. lookup cp prompt (llmStringKey m stop) (cache_st w)) prompts, w2)),
                 llmOutput = Some (case llmOutput results of None \<Rightarrow> [] | Some out \<Rightarrow> out),
                 run = None\<rparr>,
            snd (splice_results cp prompts (llmStringKey m stop) missing 0 (generations results)
                   (map (\<lambda>prompt. lookup cp prompt (llmStringKey m stop) (cache_st w)) prompts, w2)))"
  using assms by (simp add: generate_def Let_def emit_def split: prod.splits)

lemma generate_failure:
  assumes "cache m = Some cp"
    and "missingPromptIndices cp (map (\<lambda>prompt. lookup cp prompt (llmStringKey m stop) (cache_st w)) prompts) = missing"
    and "missing \<noteq> []"
    and "u_generateUncached m (map (\<lambda>i. prompts ! i) missing) stop cbs
           (w\<lparr>trace := trace w @ map (\<lambda>prompt. CacheLookup prompt (llmStringKey m stop)) prompts\<rparr>) = (Inl err, w2)"
  shows "generate m (Array prompts) stop cbs w = (Inl err, w2)"
  using assms by (simp add: generate_def Let_def emit_def)

lemma generate_no_misses:
  assumes "cache m = Some cp"
    and "missingPromptIndices cp (map (\<lambda>prompt. lookup cp prompt (llmStringKey m stop) (cache_st w)) prompts) = []"
  shows "generate m (Array prompts) stop cbs w =
           (Inr \<lparr>generations = map (\<lambda>prompt. lookup cp prompt (llmStringKey m stop) (cache_st w)) prompts,
                 llmOutput = Some [], run = None\<rparr>,
            w\<lparr>trace := trace w @ map (\<lambda>prompt. CacheLookup prompt (llmStringKey m stop)) prompts\<rparr>)"
  using assms by (simp add: generate_def Let_def emit_def)

text \<open>Which events of the trace are backend calls, and which are cache writes.\<close>

lemma missing_by_settling: "sorted (map (completion cp) (missingPromptIndices cp gens))"
  by (simp add: missingPromptIndices_def filter_sort)

lemma no_backend_in_lookups:
  "filter is_BackendGenerate (map (\<lambda>prompt. CacheLookup prompt key) prompts) = []"
  by (induction prompts) simp_all

lemma no_update_in_lookups:
  "filter is_CacheUpdate (map (\<lambda>prompt. CacheLookup prompt key) prompts) = []"
  by (induction prompts) simp_all

lemma no_backend_in_updates:
  "filter is_BackendGenerate (map (\<lambda>(k, g). CacheUpdate (f k) key g) kgs) = []"
  by (induction kgs) auto

lemma all_updates:
  "filter is_CacheUpdate (map (\<lambda>(k, g). CacheUpdate (f k) key g) kgs) =
     map (\<lambda>(k, g). CacheUpdate (f k) key g) kgs"
  by (induction kgs) auto

text \<open>The cache key is the joined, sorted list of the entry strings.\<close>

lemma map_insort_key: "map f (insort_key f x xs) = insort (f x) (map f xs)"
  by (induction xs) simp_all

lemma map_sort_key: "map f (sort_key f xs) = sort (map f xs)"
  by (induction xs) (simp_all add: map_insort_key)

lemma entries_convert:
  "map (\<lambda>v. if v = JUndefined \<or> v = JNull then [] else toString v) (js_sort (map entry params)) =
     sort (map (\<lambda>kv. toString (entry kv)) params)"
proof -
  have "\<forall>v \<in> set (js_sort (map entry params)). v \<noteq> JUndefined \<and> v \<noteq> JNull"
    by (auto simp: js_sort_def entry_def)
  then have "map (\<lambda>v. if v = JUndefined \<or> v = JNull then [] else toString v) (js_sort (map entry params)) =
              map toString (js_sort (map entry params))"
    by (intro map_cong) auto
  also have "\<dots> = sort (map toString (map entry params))"
    by (simp add: js_sort_def map_sort_key)
  finally show ?thesis by (simp add: o_def)
qed

lemma update_entries:
  "toString (entry (k, v)) = toString (entry (k, v')) \<Longrightarrow>
   map (\<lambda>kv. toString (entry kv)) (AList.update k v ps) =
   map (\<lambda>kv. toString (entry kv)) (AList.update k v' ps)"
  by (induction ps) auto

lemma key_depends_on_stop_string:
  assumes "toString (entry (''stop'', stop_value stop)) = toString (entry (''stop'', stop_value stop'))"
  shows "llmStringKey m stop = llmStringKey m stop'"
proof -
  have key: "llmStringKey m s =
      join_comma (sort (map (\<lambda>kv. toString (entry kv))
        (AList.update ''stop'' (stop_value s) (serialize m))))" for s
    by (simp add: llmStringKey_def entries_convert)
  from update_entries [OF assms, of "serialize m"] show ?thesis
    by (simp only: key)
qed

text \<open>The adapter loop against the calls made in turn.\<close>

lemma LLM_loop_calls:
  "LLM_loop u_call prompts stop rm gens b =
     (case call_in_turn u_call prompts stop rm b of
        (Inl err, b') \<Rightarrow> (Inl err, b')
      | (Inr txts, b') \<Rightarrow>
          (Inr \<lparr>generations = gens @ map (\<lambda>txt. [Generation txt]) txts, llmOutput = None, run = None\<rparr>, b'))"
  by (induction prompts arbitrary: gens b) (auto split: prod.splits sum.splits)

lemma call_in_turn_length:
  "call_in_turn u_call prompts stop rm b = (Inr txts, b') \<Longrightarrow> length txts = length prompts"
  by (induction prompts arbitrary: txts b) (auto split: prod.splits sum.splits)

text \<open>The concrete instances, evaluated.\<close>

lemma sample_key: "llmStringKey (sample_llm cp backend) None = ''_model,base_llm,_type,echo,stop,''"
  by (simp add: llmStringKey_def sample_llm_def serialize_def stop_value_def entry_def js_sort_def
      u_modelType_def)

lemma table_hits:
  "map (\<lambda>prompt. lookup (table_cache settle) prompt (llmStringKey (sample_llm cp backend) None)
               (cache_st (initial one_cached))) [''p1'', ''p2'', ''p3'']
   = [None, Some [Generation ''cached''], None]"
  by (simp add: sample_key table_cache_def initial_def one_cached_def)

lemma table_missing_in_order:
  "missingPromptIndices (table_cache (\<lambda>i. 0)) [None, Some [Generation ''cached''], None] = [0, 2]"
  by (simp add: missingPromptIndices_def table_cache_def upt_rec)

lemma demo_cache: "cache demo_llm = Some (table_cache (\<lambda>i. 0))"
  by (simp add: demo_llm_def sample_llm_def)

lemma demo_hits:
  "map (\<lambda>prompt. lookup (table_cache (\<lambda>i. 0)) prompt (llmStringKey demo_llm None)
               (cache_st (initial one_cached))) [''p1'', ''p2'', ''p3'']
   = [None, Some [Generation ''cached''], None]"
  unfolding demo_llm_def by (rule table_hits)

lemma demo_uncached:
  "u_generateUncached demo_llm (map (\<lambda>i. [''p1'', ''p2'', ''p3''] ! i) [0, 2]) None [''sink'']
     ((initial one_cached)\<lparr>trace := trace (initial one_cached) @
         map (\<lambda>prompt. CacheLookup prompt (llmStringKey demo_llm None)) [''p1'', ''p2'', ''p3'']\<rparr>)
   = (Inr demo_results, demo_after_backend)"
  by code_simp

lemma demo_configure: "map_option freshId (configure demo_llm [''sink'']) = Some ''run-1''"
  by (simp add: demo_llm_def sample_llm_def)


section \<open>Verified properties\<close>

text \<open>
  C1 (amended). With a cache, at least one miss and a backend that returns, \<^verbatim>\<open>generate\<close>
  calls the backend once, with exactly the prompts that missed: each miss once, listed in the
  order in which their lookups settled, which is the original relative order whenever the
  lookups settle in index order. The returned sequence has one slot per prompt, every hit
  unchanged at its index, and the result computed for a missing prompt at the index of that
  prompt. The claim as written promises the original relative order for every cache.
\<close>

theorem generate_partial_hits:
  assumes "cache m = Some cp"
    and "map (\<lambda>prompt. lookup cp prompt (llmStringKey m stop) (cache_st w)) prompts = hits"
    and "missingPromptIndices cp hits = missing"
    and "missing \<noteq> []"
    and "u_generateUncached m (map (\<lambda>i. prompts ! i) missing) stop cbs
           (w\<lparr>trace := trace w @ map (\<lambda>prompt. CacheLookup prompt (llmStringKey m stop)) prompts\<rparr>)
         = (Inr results, w2)"
  shows "\<exists>merged w3.
           generate m (Array prompts) stop cbs w =
             (Inr \<lparr>generations = merged,
                   llmOutput = Some (case llmOutput results of None \<Rightarrow> [] | Some out \<Rightarrow> out),
                   run = None\<rparr>, w3) \<and>
           filter is_BackendGenerate (drop (length (trace w)) (trace w3)) =
             [BackendGenerate (map (\<lambda>i. prompts ! i) missing) stop (map_option freshId (configure m cbs))] \<and>
           distinct missing \<and>
           set missing = {i. i < length prompts \<and> hits ! i = None} \<and>
           sorted (map (completion cp) missing) \<and>
           (sorted (map (completion cp) [0..<length prompts]) \<longrightarrow>
              missing = filter (\<lambda>i. hits ! i = None) [0..<length prompts]) \<and>
           length merged = length prompts \<and>
           (\<forall>i < length prompts. hits ! i \<noteq> None \<longrightarrow> merged ! i = hits ! i) \<and>
           (\<forall>j < length missing. j < length (generations results) \<longrightarrow>
              merged ! (missing ! j) = Some (generations results ! j))"
proof -
  let ?key = "llmStringKey m stop"
  let ?w1 = "w\<lparr>trace := trace w @ map (\<lambda>prompt. CacheLookup prompt ?key) prompts\<rparr>"
  obtain merged w3 where sp:
    "splice_results cp prompts ?key missing 0 (generations results) (hits, w2) = (merged, w3)"
    by (cases "splice_results cp prompts ?key missing 0 (generations results) (hits, w2)")
  have len: "length hits = length prompts"
    using assms(2) by auto
  have gen: "generate m (Array prompts) stop cbs w =
               (Inr \<lparr>generations = merged,
                     llmOutput = Some (case llmOutput results of None \<Rightarrow> [] | Some out \<Rightarrow> out),
                     run = None\<rparr>, w3)"
    using generate_with_misses [OF assms(1) _ assms(4), of stop w prompts cbs results w2]
      assms(2,3,5) sp by simp
  from uncached_trace [OF assms(5)] obtain evs where evs:
    "trace w2 = trace ?w1 @ evs"
    "filter is_BackendGenerate evs =
       [BackendGenerate (map (\<lambda>i. prompts ! i) missing) stop (map_option freshId (configure m cbs))]"
    by blast
  have "drop (length (trace w)) (trace w3) =
          map (\<lambda>prompt. CacheLookup prompt ?key) prompts @ evs @
          map (\<lambda>(k, g). CacheUpdate (if k < length missing then Some (prompts ! (missing ! k)) else None) ?key g)
            (enumerate 0 (generations results))"
    using splice_trace [OF sp] evs(1) by simp
  then have backend: "filter is_BackendGenerate (drop (length (trace w)) (trace w3)) =
      [BackendGenerate (map (\<lambda>i. prompts ! i) missing) stop (map_option freshId (configure m cbs))]"
    by (simp add: no_backend_in_lookups no_backend_in_updates evs(2))
  have dist: "distinct missing"
    using assms(3) missing_distinct by blast
  have mset: "set missing = {i. i < length prompts \<and> hits ! i = None}"
    using assms(3) missing_set [of cp hits] len by simp
  have settle: "sorted (map (completion cp) missing)"
    using assms(3) missing_by_settling by blast
  have inorder: "sorted (map (completion cp) [0..<length prompts]) \<longrightarrow>
              missing = filter (\<lambda>i. hits ! i = None) [0..<length prompts]"
    using assms(3) missing_in_order [of cp hits] len by auto
  have mlen: "length merged = length prompts"
    using splice_length [OF sp] len by simp
  have untouched: "\<forall>i < length prompts. hits ! i \<noteq> None \<longrightarrow> merged ! i = hits ! i"
  proof (intro allI impI)
    fix i assume "i < length prompts" "hits ! i \<noteq> None"
    then have "i \<notin> set (drop 0 missing)" using mset by simp
    from splice_untouched [OF sp this] show "merged ! i = hits ! i" .
  qed
  have bound: "\<forall>i \<in> set missing. i < length hits"
    using mset len by simp
  have filled: "\<forall>j < length missing. j < length (generations results) \<longrightarrow>
              merged ! (missing ! j) = Some (generations results ! j)"
  proof (intro allI impI)
    fix j assume j: "j < length missing" "j < length (generations results)"
    from splice_filled [OF sp dist bound, of j] j
    show "merged ! (missing ! j) = Some (generations results ! j)" by simp
  qed
  from gen backend dist mset settle inorder mlen untouched filled show ?thesis
    by blast
qed

text \<open>The theorem at a batch of three prompts whose second one is cached.\<close>

theorem generate_partial_hits_witness:
  "cache demo_llm = Some (table_cache (\<lambda>i. 0))
   \<and> map (\<lambda>prompt. lookup (table_cache (\<lambda>i. 0)) prompt (llmStringKey demo_llm None)
               (cache_st (initial one_cached))) [''p1'', ''p2'', ''p3'']
       = [None, Some [Generation ''cached''], None]
   \<and> missingPromptIndices (table_cache (\<lambda>i. 0)) [None, Some [Generation ''cached''], None] = [0, 2]
   \<and> u_generateUncached demo_llm (map (\<lambda>i. [''p1'', ''p2'', ''p3''] ! i) [0, 2]) None [''sink'']
        ((initial one_cached)\<lparr>trace := trace (initial one_cached) @
            map (\<lambda>prompt. CacheLookup prompt (llmStringKey demo_llm None)) [''p1'', ''p2'', ''p3'']\<rparr>)
       = (Inr demo_results, demo_after_backend)
   \<and> (\<exists>merged w3.
         generate demo_llm (Array [''p1'', ''p2'', ''p3'']) None [''sink''] (initial one_cached) =
           (Inr \<lparr>generations = merged, llmOutput = Some [], run = None\<rparr>, w3) \<and>
         filter is_BackendGenerate (drop (length (trace (initial one_cached))) (trace w3)) =
           [BackendGenerate [''p1'', ''p3''] None (Some ''run-1'')] \<and>
         merged = [Some [Generation ''p1!''], Some [Generation ''cached''], Some [Generation ''p3!'']])"
proof -
  note h = demo_cache demo_hits table_missing_in_order demo_uncached
  have ne: "[0::nat, 2] \<noteq> []" by simp
  from generate_partial_hits [OF demo_cache demo_hits table_missing_in_order ne demo_uncached]
  obtain merged w3 where
    gen: "generate demo_llm (Array [''p1'', ''p2'', ''p3'']) None [''sink''] (initial one_cached) =
           (Inr \<lparr>generations = merged,
                 llmOutput = Some (case llmOutput demo_results of None \<Rightarrow> [] | Some out \<Rightarrow> out),
                 run = None\<rparr>, w3)"
    and backend: "filter is_BackendGenerate (drop (length (trace (initial one_cached))) (trace w3)) =
           [BackendGenerate (map (\<lambda>i. [''p1'', ''p2'', ''p3''] ! i) [0, 2]) None
              (map_option freshId (configure demo_llm [''sink'']))]"
    and len: "length merged = length [''p1'', ''p2'', ''p3'']"
    and kept: "\<forall>i < length [''p1'', ''p2'', ''p3''].
                 [None, Some [Generation ''cached''], None] ! i \<noteq> None \<longrightarrow>
                 merged ! i = [None, Some [Generation ''cached''], None] ! i"
    and filled: "\<forall>j < length [0::nat, 2]. j < length (generations demo_results) \<longrightarrow>
                 merged ! ([0, 2] ! j) = Some (generations demo_results ! j)"
    by blast
  from kept have m1: "merged ! 1 = Some [Generation ''cached'']" by simp
  from filled [rule_format, of 0] have m0: "merged ! 0 = Some [Generation ''p1!'']"
    by (simp add: demo_results_def)
  from filled [rule_format, of 1] have m2: "merged ! 2 = Some [Generation ''p3!'']"
    by (simp add: demo_results_def)
  from len obtain a b c where "merged = [a, b, c]"
    by (auto simp: length_Suc_conv numeral_3_eq_3)
  with m0 m1 m2
  have merged: "merged = [Some [Generation ''p1!''], Some [Generation ''cached''], Some [Generation ''p3!'']]"
    by simp
  from gen have gen': "generate demo_llm (Array [''p1'', ''p2'', ''p3'']) None [''sink''] (initial one_cached) =
           (Inr \<lparr>generations = merged, llmOutput = Some [], run = None\<rparr>, w3)"
    by (simp add: demo_results_def)
  from backend have backend': "filter is_BackendGenerate (drop (length (trace (initial one_cached))) (trace w3)) =
           [BackendGenerate [''p1'', ''p3''] None (Some ''run-1'')]"
    by (simp add: demo_llm_def sample_llm_def)
  from gen' backend' merged h show ?thesis by blast
qed

text \<open>
  The same batch on a cache whose lookup for the first prompt settles last: the backend is
  called with \<^verbatim>\<open>[p3, p1]\<close>, and the results still land at the indices of their prompts.
\<close>

theorem generate_partial_hits_counterexample:
  "lookup (table_cache (\<lambda>i. 2 - i)) ''p2'' ''_model,base_llm,_type,echo,stop,'' one_cached
     = Some [Generation ''cached'']
   \<and> lookup (table_cache (\<lambda>i. 2 - i)) ''p1'' ''_model,base_llm,_type,echo,stop,'' one_cached = None
   \<and> lookup (table_cache (\<lambda>i. 2 - i)) ''p3'' ''_model,base_llm,_type,echo,stop,'' one_cached = None
   \<and> generate (sample_llm (Some (table_cache (\<lambda>i. 2 - i))) echo) (Array [''p1'', ''p2'', ''p3'']) None []
       (initial one_cached)
     = (Inr \<lparr>generations = [Some [Generation ''p1!''], Some [Generation ''cached''], Some [Generation ''p3!'']],
             llmOutput = Some [], run = None\<rparr>,
        \<lparr>cache_st = [((Some ''p2'', ''_model,base_llm,_type,echo,stop,''), [Generation ''cached'']),
                     ((Some ''p3'', ''_model,base_llm,_type,echo,stop,''), [Generation ''p3!'']),
                     ((Some ''p1'', ''_model,base_llm,_type,echo,stop,''), [Generation ''p1!''])],
         backend_st = 1,
         trace = [CacheLookup ''p1'' ''_model,base_llm,_type,echo,stop,'',
                  CacheLookup ''p2'' ''_model,base_llm,_type,echo,stop,'',
                  CacheLookup ''p3'' ''_model,base_llm,_type,echo,stop,'',
                  BackendGenerate [''p3'', ''p1''] None None,
                  CacheUpdate (Some ''p3'') ''_model,base_llm,_type,echo,stop,'' [Generation ''p3!''],
                  CacheUpdate (Some ''p1'') ''_model,base_llm,_type,echo,stop,'' [Generation ''p1!'']]\<rparr>)"
  by code_simp

text \<open>
  C2. The code does not keep stop lists apart: the key is built by joining array elements
  with commas, so for every backend instance the stop lists \<^verbatim>\<open>["a,b"]\<close> and \<^verbatim>\<open>["a", "b"]\<close>
  give the same serialized-parameters string.
\<close>

theorem stop_lists_share_key:
  "llmStringKey m (Some [''a,b'']) = llmStringKey m (Some [''a'', ''b''])"
  by (rule key_depends_on_stop_string) (simp add: entry_def stop_value_def)

text \<open>
  The consequence on a run: the second call, with \<^verbatim>\<open>["a", "b"]\<close>, starts in the world the
  first call, with \<^verbatim>\<open>["a,b"]\<close>, left; it finds the entry written by the first call and returns
  it without calling the backend.
\<close>

lemma false_cache_hit:
  "generate (sample_llm (Some (table_cache (\<lambda>i. 0))) echo) (Array [''q'']) (Some [''a'', ''b'']) []
     (snd (generate (sample_llm (Some (table_cache (\<lambda>i. 0))) echo) (Array [''q'']) (Some [''a,b'']) []
             (initial [])))
   = (Inr \<lparr>generations = [Some [Generation ''q!'']], llmOutput = Some [], run = None\<rparr>,
      \<lparr>cache_st = [((Some ''q'', ''_model,base_llm,_type,echo,stop,a,b''), [Generation ''q!''])],
       backend_st = 1,
       trace = [CacheLookup ''q'' ''_model,base_llm,_type,echo,stop,a,b'',
                BackendGenerate [''q''] (Some [''a,b'']) None,
                CacheUpdate (Some ''q'') ''_model,base_llm,_type,echo,stop,a,b'' [Generation ''q!''],
                CacheLookup ''q'' ''_model,base_llm,_type,echo,stop,a,b'']\<rparr>)"
  by code_simp

text \<open>
  C3. With a cache in which every prompt of the batch is found under the current key,
  \<^verbatim>\<open>generate\<close> returns the cached results in input order with the empty metadata map, and
  the only thing it does is the lookups: the backend state is untouched and the trace gains
  no backend call, no notification and no cache write.
\<close>

theorem generate_all_hits:
  assumes "cache m = Some cp"
    and "\<forall>prompt \<in> set prompts. lookup cp prompt (llmStringKey m stop) (cache_st w) \<noteq> None"
  shows "generate m (Array prompts) stop cbs w =
           (Inr \<lparr>generations = map (\<lambda>prompt. lookup cp prompt (llmStringKey m stop) (cache_st w)) prompts,
                 llmOutput = Some [], run = None\<rparr>,
            w\<lparr>trace := trace w @ map (\<lambda>prompt. CacheLookup prompt (llmStringKey m stop)) prompts\<rparr>)"
proof -
  let ?hits = "map (\<lambda>prompt. lookup cp prompt (llmStringKey m stop) (cache_st w)) prompts"
  from assms(2) have "set (missingPromptIndices cp ?hits) = {}"
    unfolding missing_set by auto
  then have "missingPromptIndices cp ?hits = []" by simp
  with assms(1) show ?thesis
    by (simp add: generate_def Let_def emit_def)
qed

text \<open>The theorem at a batch that asks twice for the one cached prompt.\<close>

theorem generate_all_hits_witness:
  "cache demo_llm = Some (table_cache (\<lambda>i. 0))
   \<and> lookup (table_cache (\<lambda>i. 0)) ''p2'' (llmStringKey demo_llm None) (cache_st (initial one_cached))
       = Some [Generation ''cached'']
   \<and> generate demo_llm (Array [''p2'', ''p2'']) None [''sink''] (initial one_cached) =
       (Inr \<lparr>generations = [Some [Generation ''cached''], Some [Generation ''cached'']],
              llmOutput = Some [], run = None\<rparr>,
        \<lparr>cache_st = one_cached, backend_st = 0,
         trace = [CacheLookup ''p2'' ''_model,base_llm,_type,echo,stop,'',
                  CacheLookup ''p2'' ''_model,base_llm,_type,echo,stop,'']\<rparr>)"
proof -
  have key: "llmStringKey demo_llm None = ''_model,base_llm,_type,echo,stop,''"
    by (simp add: demo_llm_def sample_key)
  have hit: "lookup (table_cache (\<lambda>i. 0)) ''p2'' (llmStringKey demo_llm None) (cache_st (initial one_cached))
       = Some [Generation ''cached'']"
    by (simp add: key table_cache_def initial_def one_cached_def)
  then have all: "\<forall>prompt \<in> set [''p2'', ''p2''].
      lookup (table_cache (\<lambda>i. 0)) prompt (llmStringKey demo_llm None) (cache_st (initial one_cached)) \<noteq> None"
    by simp
  from generate_all_hits [OF demo_cache all, of "[''sink'']"] hit demo_cache show ?thesis
    by (simp add: key initial_def)
qed

text \<open>
  C4 (amended). With a cache, the cache writes of a call to \<^verbatim>\<open>generate\<close> are these: none
  when nothing missed, none when the backend throws, and otherwise one per generation that
  the backend returned, keyed by the parameter string and by the prompt at the corresponding
  missing index. When the backend returns as many generations as it was given prompts, that
  is exactly one write for each prompt that missed and none for a hit. The claim as written
  promises the writes in every call.
\<close>

theorem generate_cache_writes:
  assumes "cache m = Some cp"
    and "map (\<lambda>prompt. lookup cp prompt (llmStringKey m stop) (cache_st w)) prompts = hits"
    and "missingPromptIndices cp hits = missing"
    and "u_generateUncached m (map (\<lambda>i. prompts ! i) missing) stop cbs
           (w\<lparr>trace := trace w @ map (\<lambda>prompt. CacheLookup prompt (llmStringKey m stop)) prompts\<rparr>)
         = (outcome, w2)"
  shows "\<exists>res w3 updates.
           generate m (Array prompts) stop cbs w = (res, w3) \<and>
           updates = filter is_CacheUpdate (drop (length (trace w)) (trace w3)) \<and>
           distinct missing \<and>
           set missing = {i. i < length prompts \<and> hits ! i = None} \<and>
           (if missing = [] then updates = []
            else (case outcome of
                    Inl err \<Rightarrow> res = Inl err \<and> updates = []
                  | Inr results \<Rightarrow>
                      updates =
                        map (\<lambda>(k, g). CacheUpdate (if k < length missing then Some (prompts ! (missing ! k))
                                                    else None) (llmStringKey m stop) g)
                          (enumerate 0 (generations results)) \<and>
                      (length (generations results) = length missing \<longrightarrow>
                         updates = map (\<lambda>(i, g). CacheUpdate (Some (prompts ! i)) (llmStringKey m stop) g)
                                     (zip missing (generations results)))))"
proof -
  let ?key = "llmStringKey m stop"
  let ?lookups = "map (\<lambda>prompt. CacheLookup prompt ?key) prompts"
  let ?w1 = "w\<lparr>trace := trace w @ ?lookups\<rparr>"
  have len: "length hits = length prompts"
    using assms(2) by auto
  have dist: "distinct missing"
    using assms(3) missing_distinct by blast
  have mset: "set missing = {i. i < length prompts \<and> hits ! i = None}"
    using assms(3) missing_set [of cp hits] len by simp
  from uncached_trace [OF assms(4)] obtain evs where evs:
    "trace w2 = trace ?w1 @ evs" "filter is_CacheUpdate evs = []"
    by blast
  show ?thesis
  proof (cases "missing = []")
    case True
    have "generate m (Array prompts) stop cbs w =
            (Inr \<lparr>generations = hits, llmOutput = Some [], run = None\<rparr>, ?w1)"
      using generate_no_misses [OF assms(1), of stop w prompts cbs] assms(2,3) True by simp
    moreover have "filter is_CacheUpdate (drop (length (trace w)) (trace ?w1)) = []"
      by (simp add: no_update_in_lookups)
    ultimately show ?thesis using True dist mset by simp
  next
    case False
    show ?thesis
    proof (cases outcome)
      case (Inl err)
      have "generate m (Array prompts) stop cbs w = (Inl err, w2)"
        using generate_failure [OF assms(1) _ False, of stop w prompts cbs err w2] assms(2,3,4) Inl
        by simp
      moreover have "filter is_CacheUpdate (drop (length (trace w)) (trace w2)) = []"
        using evs by (simp add: no_update_in_lookups)
      ultimately show ?thesis using False Inl dist mset by simp
    next
      case (Inr results)
      obtain merged w3 where sp:
        "splice_results cp prompts ?key missing 0 (generations results) (hits, w2) = (merged, w3)"
        by (cases "splice_results cp prompts ?key missing 0 (generations results) (hits, w2)")
      let ?ups = "map (\<lambda>(k, g). CacheUpdate (if k < length missing then Some (prompts ! (missing ! k))
                                                    else None) ?key g)
                          (enumerate 0 (generations results))"
      have gen: "generate m (Array prompts) stop cbs w =
               (Inr \<lparr>generations = merged,
                     llmOutput = Some (case llmOutput results of None \<Rightarrow> [] | Some out \<Rightarrow> out),
                     run = None\<rparr>, w3)"
        using generate_with_misses [OF assms(1) _ False, of stop w prompts cbs results w2]
          assms(2,3,4) Inr sp by simp
      have "drop (length (trace w)) (trace w3) = ?lookups @ evs @ ?ups"
        using splice_trace [OF sp] evs(1) by simp
      then have ups: "filter is_CacheUpdate (drop (length (trace w)) (trace w3)) = ?ups"
        by (simp add: no_update_in_lookups evs(2) all_updates)
      have "length (generations results) = length missing \<longrightarrow>
              ?ups = map (\<lambda>(i, g). CacheUpdate (Some (prompts ! i)) ?key g) (zip missing (generations results))"
        using enumerate_updates [of "generations results" missing prompts ?key] by simp
      with gen ups False Inr dist mset show ?thesis by simp
    qed
  qed
qed

text \<open>The theorem at a batch of three prompts whose second one is cached.\<close>

theorem generate_cache_writes_witness:
  "cache demo_llm = Some (table_cache (\<lambda>i. 0))
   \<and> map (\<lambda>prompt. lookup (table_cache (\<lambda>i. 0)) prompt (llmStringKey demo_llm None)
               (cache_st (initial one_cached))) [''p1'', ''p2'', ''p3'']
       = [None, Some [Generation ''cached''], None]
   \<and> missingPromptIndices (table_cache (\<lambda>i. 0)) [None, Some [Generation ''cached''], None] = [0, 2]
   \<and> u_generateUncached demo_llm (map (\<lambda>i. [''p1'', ''p2'', ''p3''] ! i) [0, 2]) None [''sink'']
        ((initial one_cached)\<lparr>trace := trace (initial one_cached) @
            map (\<lambda>prompt. CacheLookup prompt (llmStringKey demo_llm None)) [''p1'', ''p2'', ''p3'']\<rparr>)
       = (Inr demo_results, demo_after_backend)
   \<and> length (generations demo_results) = length [0::nat, 2]
   \<and> (\<exists>res w3.
         generate demo_llm (Array [''p1'', ''p2'', ''p3'']) None [''sink''] (initial one_cached) = (res, w3) \<and>
         filter is_CacheUpdate (drop (length (trace (initial one_cached))) (trace w3)) =
           [CacheUpdate (Some ''p1'') ''_model,base_llm,_type,echo,stop,'' [Generation ''p1!''],
            CacheUpdate (Some ''p3'') ''_model,base_llm,_type,echo,stop,'' [Generation ''p3!'']])"
proof -
  have key: "llmStringKey demo_llm None = ''_model,base_llm,_type,echo,stop,''"
    by (simp add: demo_llm_def sample_key)
  have len: "length (generations demo_results) = length [0::nat, 2]"
    by (simp add: demo_results_def)
  from generate_cache_writes [OF demo_cache demo_hits table_missing_in_order demo_uncached]
  have "\<exists>res w3.
         generate demo_llm (Array [''p1'', ''p2'', ''p3'']) None [''sink''] (initial one_cached) = (res, w3) \<and>
         filter is_CacheUpdate (drop (length (trace (initial one_cached))) (trace w3)) =
           [CacheUpdate (Some ''p1'') ''_model,base_llm,_type,echo,stop,'' [Generation ''p1!''],
            CacheUpdate (Some ''p3'') ''_model,base_llm,_type,echo,stop,'' [Generation ''p3!'']]"
    by (auto simp: key demo_results_def)
  with demo_cache demo_hits table_missing_in_order demo_uncached len show ?thesis by blast
qed

text \<open>
  A call whose only prompt misses and whose backend throws: the failure propagates and the
  cache is not written.
\<close>

theorem generate_cache_writes_counterexample:
  "lookup (table_cache (\<lambda>i. 0)) ''p1'' ''_model,base_llm,_type,echo,stop,'' [] = None
   \<and> generate (sample_llm (Some (table_cache (\<lambda>i. 0))) broken) (Array [''p1'']) None [] (initial []) =
       (Inl (Error ''backend down''),
        \<lparr>cache_st = [], backend_st = 1,
         trace = [CacheLookup ''p1'' ''_model,base_llm,_type,echo,stop,'',
                  BackendGenerate [''p1''] None None]\<rparr>)"
  by code_simp

text \<open>
  C5. When the backend throws, the uncached path emits the error notification for the run
  after the start notification and the backend call, when a run handle is present, and throws
  the very same error; without a run handle it emits no notification and throws the same
  error.
\<close>

theorem uncached_failure_propagates:
  assumes "u_generate m prompts stop (map_option (\<lambda>cm. RunManager (freshId cm)) (configure m cbs))
             (backend_st w) = (Inl err, b)"
  shows "u_generateUncached m prompts stop cbs w =
           (Inl err,
            w\<lparr>backend_st := b,
              trace := trace w @
                (case configure m cbs of
                   None \<Rightarrow> [BackendGenerate prompts stop None]
                 | Some cm \<Rightarrow>
                     [LLMStart (u_llmType m) prompts (freshId cm),
                      BackendGenerate prompts stop (Some (freshId cm)),
                      LLMError err (freshId cm)])\<rparr>)"
  using assms by (simp add: uncached_result Let_def split: option.splits)

text \<open>The theorem at the throwing backend with one sink registered.\<close>

theorem uncached_failure_propagates_witness:
  "u_generate (sample_llm None broken) [''p'']  None
     (map_option (\<lambda>cm. RunManager (freshId cm)) (configure (sample_llm None broken) [''sink'']))
     (backend_st (initial [])) = (Inl (Error ''backend down''), 1)
   \<and> u_generateUncached (sample_llm None broken) [''p''] None [''sink''] (initial []) =
       (Inl (Error ''backend down''),
        \<lparr>cache_st = [], backend_st = 1,
         trace = [LLMStart ''echo'' [''p''] ''run-1'',
                  BackendGenerate [''p''] None (Some ''run-1''),
                  LLMError (Error ''backend down'') ''run-1'']\<rparr>)"
proof -
  have h: "u_generate (sample_llm None broken) [''p''] None
     (map_option (\<lambda>cm. RunManager (freshId cm)) (configure (sample_llm None broken) [''sink'']))
     (backend_st (initial [])) = (Inl (Error ''backend down''), 1)"
    by (simp add: sample_llm_def broken_def initial_def)
  show ?thesis
    using h uncached_failure_propagates [OF h]
    by (simp add: sample_llm_def initial_def)
qed

text \<open>
  C6. Every invocation of the uncached path with a coordinator emits exactly three events:
  the start notification, the backend call, and one terminal notification for the same run,
  which is the error notification when the path throws that error and the end notification
  when the path returns that output. Without a coordinator there is no run and no
  notification.
\<close>

theorem uncached_notification_order:
  "\<exists>res w' terminal.
     u_generateUncached m prompts stop cbs w = (res, w') \<and>
     (case configure m cbs of
        None \<Rightarrow> drop (length (trace w)) (trace w') = [BackendGenerate prompts stop None]
      | Some cm \<Rightarrow>
          drop (length (trace w)) (trace w') =
            [LLMStart (u_llmType m) prompts (freshId cm),
             BackendGenerate prompts stop (Some (freshId cm)),
             terminal] \<and>
          ((\<exists>err. terminal = LLMError err (freshId cm) \<and> res = Inl err) \<or>
           (\<exists>out. terminal = LLMEnd out (freshId cm) \<and> res = Inr (out\<lparr>run := Some (freshId cm)\<rparr>))))"
proof (cases "u_generate m prompts stop (map_option (\<lambda>cm. RunManager (freshId cm)) (configure m cbs)) (backend_st w)")
  case (Pair outcome b)
  show ?thesis
  proof (cases outcome)
    case (Inl err)
    with Pair show ?thesis
      by (cases "configure m cbs") (simp_all add: uncached_result Let_def)
  next
    case (Inr out)
    with Pair show ?thesis
      by (cases "configure m cbs") (simp_all add: uncached_result Let_def)
  qed
qed

text \<open>
  C7. When \<^verbatim>\<open>prompts\<close> is not an array, \<^verbatim>\<open>generate\<close> throws the error of line 106 and leaves
  the world as it found it: the cache store, the backend state and the trace are unchanged,
  so no lookup, no cache write and no backend call happened.
\<close>

theorem generate_rejects_non_array:
  "generate m NotArray stop cbs w =
     (Inl (Error ''Argument 'prompts' is expected to be a string[]''), w)"
  by (simp add: generate_def)

text \<open>
  C8 (amended). \<^verbatim>\<open>deserialize\<close> tests the model discriminator first: a record whose model
  discriminator is present, not empty and different from \<^verbatim>\<open>base_llm\<close> fails with the message
  that names that model, whatever its type discriminator. A record that passes this test and
  whose type discriminator is neither \<^verbatim>\<open>openai\<close> nor a property name that object literals
  inherit fails with the message that names that type. In both cases the outcome is an error,
  so nothing is constructed. The claim as written promises the type failure for every record
  with an unregistered type discriminator.
\<close>

theorem deserialize_failures:
  "(u_model data = Some mdl \<and> mdl \<noteq> [] \<and> mdl \<noteq> ''base_llm'' \<longrightarrow>
      deserialize data = Inl (Error (''Cannot load LLM with model '' @ mdl)))
   \<and> ((u_model data = None \<or> u_model data = Some [] \<or> u_model data = Some ''base_llm'') \<and>
       u_type data \<noteq> ''openai'' \<and> u_type data \<noteq> ''constructor'' \<and>
       u_type data \<notin> set inherited_names \<longrightarrow>
      deserialize data = Inl (Error (''Cannot load  LLM with type '' @ u_type data)))"
  by (auto simp: deserialize_def Cls_def)

text \<open>The theorem at a record for each of its two parts.\<close>

theorem deserialize_failures_witness:
  "deserialize \<lparr>u_model = Some ''chat'', u_type = ''openai'', rest = []\<rparr>
     = Inl (Error ''Cannot load LLM with model chat'')
   \<and> deserialize \<lparr>u_model = Some ''base_llm'', u_type = ''anthropic'', rest = []\<rparr>
     = Inl (Error ''Cannot load  LLM with type anthropic'')"
  using deserialize_failures [of "\<lparr>u_model = Some ''chat'', u_type = ''openai'', rest = []\<rparr>" "''chat''"]
    deserialize_failures [of "\<lparr>u_model = Some ''base_llm'', u_type = ''anthropic'', rest = []\<rparr>" "''x''"]
  by (simp add: inherited_names_def)

text \<open>
  A record whose type discriminator is not registered and whose model discriminator does
  not match: it fails with the model message.
\<close>

theorem deserialize_failures_counterexample:
  "Cls ''nope'' = None
   \<and> deserialize \<lparr>u_model = Some ''chat'', u_type = ''nope'', rest = []\<rparr>
       = Inl (Error ''Cannot load LLM with model chat'')
   \<and> deserialize \<lparr>u_model = Some ''chat'', u_type = ''nope'', rest = []\<rparr>
       \<noteq> Inl (Error ''Cannot load  LLM with type nope'')"
  by (simp add: deserialize_def Cls_def inherited_names_def)

text \<open>
  The inherited names, which the theorem above leaves out: \<^verbatim>\<open>constructor\<close> yields the plain
  object of the remaining properties, a method name yields a type error.
\<close>

lemma deserialize_inherited_names:
  "deserialize \<lparr>u_model = Some ''base_llm'', u_type = ''constructor'', rest = args\<rparr> = Inr (PlainObject args)"
  "deserialize \<lparr>u_model = Some ''base_llm'', u_type = ''toString'', rest = args\<rparr>
     = Inl (TypeError ''Cls is not a constructor'')"
  by (simp_all add: deserialize_def Cls_def inherited_names_def new_Cls_def)

text \<open>
  C9. The batch generation of the single-prompt adapter returns exactly when every call of
  the single-prompt operation returns, and then its per-prompt sequence is the list of
  one-candidate lists wrapping the strings that the calls produced, in input order, one per
  prompt; when a call throws, the adapter throws the same error.
\<close>

theorem LLM_generate_wraps_calls:
  "LLM_u_generate u_call prompts stop rm b =
     (case call_in_turn u_call prompts stop rm b of
        (Inl err, b') \<Rightarrow> (Inl err, b')
      | (Inr txts, b') \<Rightarrow>
          (Inr \<lparr>generations = map (\<lambda>txt. [Generation txt]) txts, llmOutput = None, run = None\<rparr>, b'))
   \<and> (\<forall>txts b'. call_in_turn u_call prompts stop rm b = (Inr txts, b') \<longrightarrow>
         length txts = length prompts)
   \<and> (\<forall>r b'. LLM_u_generate u_call prompts stop rm b = (Inr r, b') \<longrightarrow>
         length (generations r) = length prompts \<and>
         (\<forall>i < length prompts. \<exists>txt. generations r ! i = [Generation txt]))"
proof -
  have eq: "LLM_u_generate u_call prompts stop rm b =
     (case call_in_turn u_call prompts stop rm b of
        (Inl err, b') \<Rightarrow> (Inl err, b')
      | (Inr txts, b') \<Rightarrow>
          (Inr \<lparr>generations = map (\<lambda>txt. [Generation txt]) txts, llmOutput = None, run = None\<rparr>, b'))"
    by (auto simp: LLM_u_generate_def LLM_loop_calls split: prod.splits sum.splits)
  have len: "\<forall>txts b'. call_in_turn u_call prompts stop rm b = (Inr txts, b') \<longrightarrow>
         length txts = length prompts"
    by (simp add: call_in_turn_length)
  have shape: "\<forall>r b'. LLM_u_generate u_call prompts stop rm b = (Inr r, b') \<longrightarrow>
         length (generations r) = length prompts \<and>
         (\<forall>i < length prompts. \<exists>txt. generations r ! i = [Generation txt])"
  proof (intro allI impI)
    fix r b'
    assume ret: "LLM_u_generate u_call prompts stop rm b = (Inr r, b')"
    obtain outcome b'' where c: "call_in_turn u_call prompts stop rm b = (outcome, b'')"
      by (cases "call_in_turn u_call prompts stop rm b")
    with ret eq obtain txts where t: "outcome = Inr txts"
      and r: "r = \<lparr>generations = map (\<lambda>txt. [Generation txt]) txts, llmOutput = None, run = None\<rparr>"
      by (cases outcome) auto
    from c t have "length txts = length prompts"
      by (simp add: call_in_turn_length)
    with r show "length (generations r) = length prompts \<and>
         (\<forall>i < length prompts. \<exists>txt. generations r ! i = [Generation txt])"
      by simp
  qed
  from eq len shape show ?thesis by blast
qed

text \<open>The theorem at a batch of two prompts.\<close>

theorem LLM_generate_wraps_calls_witness:
  "call_in_turn echo_call [''a'', ''b''] None None 0 = (Inr [''a!'', ''b!''], 2)
   \<and> length [''a!'', ''b!''] = length [''a'', ''b'']
   \<and> LLM_u_generate echo_call [''a'', ''b''] None None 0 =
       (Inr \<lparr>generations = [[Generation ''a!''], [Generation ''b!'']], llmOutput = None, run = None\<rparr>, 2)"
proof -
  have calls: "call_in_turn echo_call [''a'', ''b''] None None 0 = (Inr [''a!'', ''b!''], 2)"
    by (simp add: echo_call_def)
  from LLM_generate_wraps_calls [of echo_call "[''a'', ''b'']" None None 0] calls
  show ?thesis by simp
qed

text \<open>
  C10. With a cache and at least one miss, when the uncached path returns, the result of
  \<^verbatim>\<open>generate\<close> is a new record with three fields. Its generations are the merged slots: one
  per prompt, every hit as the cache returned it, the generation that the backend returned
  for a missing prompt at the index of that prompt, and an empty slot where the backend
  returned nothing for a missing prompt. Its metadata map is the one of the uncached path
  (the empty map when that path set none). It has no run field, whereas the result of the
  uncached path carries the id of the run whenever a coordinator is configured.
\<close>

theorem generate_result_has_no_run:
  assumes "cache m = Some cp"
    and "map (\<lambda>prompt. lookup cp prompt (llmStringKey m stop) (cache_st w)) prompts = hits"
    and "missingPromptIndices cp hits = missing"
    and "missing \<noteq> []"
    and "u_generateUncached m (map (\<lambda>i. prompts ! i) missing) stop cbs
           (w\<lparr>trace := trace w @ map (\<lambda>prompt. CacheLookup prompt (llmStringKey m stop)) prompts\<rparr>)
         = (Inr results, w2)"
  shows "\<exists>merged w3.
           generate m (Array prompts) stop cbs w =
             (Inr \<lparr>generations = merged,
                   llmOutput = Some (case llmOutput results of None \<Rightarrow> [] | Some out \<Rightarrow> out),
                   run = None\<rparr>, w3) \<and>
           run results = map_option freshId (configure m cbs) \<and>
           length merged = length prompts \<and>
           (\<forall>i < length prompts. hits ! i \<noteq> None \<longrightarrow> merged ! i = hits ! i) \<and>
           (\<forall>j < length missing. j < length (generations results) \<longrightarrow>
              merged ! (missing ! j) = Some (generations results ! j)) \<and>
           (\<forall>j < length missing. length (generations results) \<le> j \<longrightarrow>
              merged ! (missing ! j) = None)"
proof -
  let ?key = "llmStringKey m stop"
  obtain merged w3 where sp:
    "splice_results cp prompts ?key missing 0 (generations results) (hits, w2) = (merged, w3)"
    by (cases "splice_results cp prompts ?key missing 0 (generations results) (hits, w2)")
  have len: "length hits = length prompts"
    using assms(2) by auto
  have gen: "generate m (Array prompts) stop cbs w =
               (Inr \<lparr>generations = merged,
                     llmOutput = Some (case llmOutput results of None \<Rightarrow> [] | Some out \<Rightarrow> out),
                     run = None\<rparr>, w3)"
    using generate_with_misses [OF assms(1) _ assms(4), of stop w prompts cbs results w2]
      assms(2,3,5) sp by simp
  have rid: "run results = map_option freshId (configure m cbs)"
    using assms(5)
    by (auto simp: uncached_result Let_def split: prod.splits sum.splits option.splits)
  have dist: "distinct missing"
    using assms(3) missing_distinct by blast
  have mset: "set missing = {i. i < length prompts \<and> hits ! i = None}"
    using assms(3) missing_set [of cp hits] len by simp
  have mlen: "length merged = length prompts"
    using splice_length [OF sp] len by simp
  have kept: "\<forall>i < length prompts. hits ! i \<noteq> None \<longrightarrow> merged ! i = hits ! i"
  proof (intro allI impI)
    fix i assume "i < length prompts" "hits ! i \<noteq> None"
    then have "i \<notin> set (drop 0 missing)" using mset by simp
    from splice_untouched [OF sp this] show "merged ! i = hits ! i" .
  qed
  have bound: "\<forall>i \<in> set missing. i < length hits"
    using mset len by simp
  have filled: "\<forall>j < length missing. j < length (generations results) \<longrightarrow>
              merged ! (missing ! j) = Some (generations results ! j)"
  proof (intro allI impI)
    fix j assume j: "j < length missing" "j < length (generations results)"
    from splice_filled [OF sp dist bound, of j] j
    show "merged ! (missing ! j) = Some (generations results ! j)" by simp
  qed
  have empty: "\<forall>j < length missing. length (generations results) \<le> j \<longrightarrow>
              merged ! (missing ! j) = None"
  proof (intro allI impI)
    fix j assume j: "j < length missing" "length (generations results) \<le> j"
    have "missing ! j \<notin> set (take (length (generations results)) (drop 0 missing))"
    proof
      assume "missing ! j \<in> set (take (length (generations results)) (drop 0 missing))"
      then obtain k where k: "k < length (generations results)" "k < length missing"
        "missing ! k = missing ! j"
        by (auto simp: in_set_conv_nth)
      with dist j(1) have "k = j"
        by (simp add: nth_eq_iff_index_eq)
      with k(1) j(2) show False by simp
    qed
    from splice_beyond [OF sp this] have "merged ! (missing ! j) = hits ! (missing ! j)" .
    moreover from j(1) have "missing ! j \<in> set missing" by simp
    then have "hits ! (missing ! j) = None" using mset by simp
    ultimately show "merged ! (missing ! j) = None" by simp
  qed
  from gen rid mlen kept filled empty show ?thesis by blast
qed

text \<open>The theorem at a batch of three prompts whose second one is cached.\<close>

theorem generate_result_has_no_run_witness:
  "cache demo_llm = Some (table_cache (\<lambda>i. 0))
   \<and> map (\<lambda>prompt. lookup (table_cache (\<lambda>i. 0)) prompt (llmStringKey demo_llm None)
               (cache_st (initial one_cached))) [''p1'', ''p2'', ''p3'']
       = [None, Some [Generation ''cached''], None]
   \<and> missingPromptIndices (table_cache (\<lambda>i. 0)) [None, Some [Generation ''cached''], None] = [0, 2]
   \<and> u_generateUncached demo_llm (map (\<lambda>i. [''p1'', ''p2'', ''p3''] ! i) [0, 2]) None [''sink'']
        ((initial one_cached)\<lparr>trace := trace (initial one_cached) @
            map (\<lambda>prompt. CacheLookup prompt (llmStringKey demo_llm None)) [''p1'', ''p2'', ''p3'']\<rparr>)
       = (Inr demo_results, demo_after_backend)
   \<and> (\<exists>w3.
         generate demo_llm (Array [''p1'', ''p2'', ''p3'']) None [''sink''] (initial one_cached) =
           (Inr \<lparr>generations =
                   [Some [Generation ''p1!''], Some [Generation ''cached''], Some [Generation ''p3!'']],
                 llmOutput = Some [], run = None\<rparr>, w3))
   \<and> run demo_results = Some ''run-1''"
proof -
  have ne: "[0::nat, 2] \<noteq> []" by simp
  from generate_result_has_no_run [OF demo_cache demo_hits table_missing_in_order ne demo_uncached]
  obtain merged w3 where
    gen: "generate demo_llm (Array [''p1'', ''p2'', ''p3'']) None [''sink''] (initial one_cached) =
           (Inr \<lparr>generations = merged,
                 llmOutput = Some (case llmOutput demo_results of None \<Rightarrow> [] | Some out \<Rightarrow> out),
                 run = None\<rparr>, w3)"
    and rid: "run demo_results = map_option freshId (configure demo_llm [''sink''])"
    and len: "length merged = length [''p1'', ''p2'', ''p3'']"
    and kept: "\<forall>i < length [''p1'', ''p2'', ''p3''].
                 [None, Some [Generation ''cached''], None] ! i \<noteq> None \<longrightarrow>
                 merged ! i = [None, Some [Generation ''cached''], None] ! i"
    and filled: "\<forall>j < length [0::nat, 2]. j < length (generations demo_results) \<longrightarrow>
                 merged ! ([0, 2] ! j) = Some (generations demo_results ! j)"
    by blast
  from kept have m1: "merged ! 1 = Some [Generation ''cached'']" by simp
  from filled [rule_format, of 0] have m0: "merged ! 0 = Some [Generation ''p1!'']"
    by (simp add: demo_results_def)
  from filled [rule_format, of 1] have m2: "merged ! 2 = Some [Generation ''p3!'']"
    by (simp add: demo_results_def)
  from len obtain a b c where "merged = [a, b, c]"
    by (auto simp: length_Suc_conv numeral_3_eq_3)
  with m0 m1 m2
  have merged: "merged = [Some [Generation ''p1!''], Some [Generation ''cached''], Some [Generation ''p3!'']]"
    by simp
  from gen merged
  have gen': "\<exists>w3. generate demo_llm (Array [''p1'', ''p2'', ''p3'']) None [''sink''] (initial one_cached) =
           (Inr \<lparr>generations =
                   [Some [Generation ''p1!''], Some [Generation ''cached''], Some [Generation ''p3!'']],
                 llmOutput = Some [], run = None\<rparr>, w3)"
    by (simp add: demo_results_def)
  from rid have rid': "run demo_results = Some ''run-1''"
    by (simp add: demo_configure)
  from gen' rid' demo_cache demo_hits table_missing_in_order demo_uncached show ?thesis
    by blast
qed

end
